theory Spec2Isabelle
  imports Complex_Main "HOL-Library.Sublist"
begin

section \<open>Python values used by the scoring pipeline\<close>

text \<open>
  The development embeds \<^verbatim>\<open>config.py\<close> and the enrichment part of \<^verbatim>\<open>scraper.py\<close>.
  Python's \<^verbatim>\<open>str\<close> is modelled as \<^typ>\<open>string\<close>, a character being a code point
  below 256; text with other code points is outside the model. Python's unbounded
  \<^verbatim>\<open>int\<close> is \<^typ>\<open>int\<close>, and Python's \<^verbatim>\<open>float\<close> is \<^typ>\<open>real\<close>: the arithmetic of the
  factors is exact here, rounding of IEEE doubles is not part of the model, and nothing
  below rests on reordering the factors of a product.
  Every \<^verbatim>\<open>raise\<close> of the source is a value \<open>Inl e\<close> of a sum type.
\<close>

datatype py_error =
    KeyError string
  | ValueError
  | TypeError
  | OverflowError

text \<open>
  \<^verbatim>\<open>str.lower()\<close>: below 256 the upper-case letters are the codes 65 to 90 (A to Z) and
  192 to 222 without 215; each has its lower-case letter 32 places on. The rest is kept.
\<close>

definition lower_char :: "char \<Rightarrow> char" where
  "lower_char c =
     (let n = (of_char c :: nat)
      in if (65 \<le> n \<and> n \<le> 90) \<or> (192 \<le> n \<and> n \<le> 222 \<and> n \<noteq> 215)
         then char_of (n + 32) else c)"

definition lower :: "string \<Rightarrow> string" where
  "lower s = map lower_char s"

text \<open>
  \<^verbatim>\<open>a in b\<close> on two strings holds when \<open>a\<close> occurs in \<open>b\<close> as a contiguous
  block, which is \<^const>\<open>sublist\<close>.
\<close>

definition py_in :: "string \<Rightarrow> string \<Rightarrow> bool" where
  "py_in a b = sublist a b"

section \<open>Lookup tables\<close>

definition ALLOWED_CURRENCY_CODES :: "string list" where
  "ALLOWED_CURRENCY_CODES = [''USD'', ''EUR'', ''GBP'', ''JPY'', ''AUD'']"

definition ALLOWED_IMPACT_COLORS :: "string list" where
  "ALLOWED_IMPACT_COLORS = [''red'', ''orange'', ''yellow'', ''gray'']"

text \<open>A dictionary literal keeps its insertion order; the items are listed in that order.\<close>

definition COLOR_SEVERITY_MAP :: "(string \<times> (string \<times> int)) list" where
  "COLOR_SEVERITY_MAP =
     [(''red'', (''High'', 3)),
      (''orange'', (''Medium'', 2)),
      (''yellow'', (''Low'', 1)),
      (''gray'', (''Low'', 1))]"

definition EVENT_CATEGORIES :: "(string \<times> string) list" where
  "EVENT_CATEGORIES =
     [(''Non-Farm Employment'', ''NFP''),
      (''GDP'', ''GDP''),
      (''Interest Rate Decision'', ''RateDecision''),
      (''CPI'', ''Inflation''),
      (''FOMC'', ''MonetaryPolicy'')]"

definition GEOPOLITICAL_KEYWORDS :: "string list" where
  "GEOPOLITICAL_KEYWORDS =
     [''war'', ''sanctions'', ''unrest'', ''disaster'', ''terror'', ''conflict'']"

definition COMMODITY_KEYWORDS :: "string list" where
  "COMMODITY_KEYWORDS = [''mining output'', ''mining'', ''reserves'', ''IMF'', ''gold supply'']"

text \<open>\<^verbatim>\<open>d[k]\<close> raises \<^verbatim>\<open>KeyError\<close> on a key that the dictionary does not have.\<close>

definition getitem :: "(string \<times> 'v) list \<Rightarrow> string \<Rightarrow> py_error + 'v" where
  "getitem d k = (case map_of d k of None \<Rightarrow> Inl (KeyError k) | Some v \<Rightarrow> Inr v)"

section \<open>Classifier\<close>

text \<open>
  \<^verbatim>\<open>
  def infer_category(headline):
      for k, v in EVENT_CATEGORIES.items():
          if k.lower() in headline.lower():
              return v
      return "Other"
  \<close>
  The loop over the items is a recursion over the item list.
\<close>

fun infer_category_items :: "(string \<times> string) list \<Rightarrow> string \<Rightarrow> string" where
  "infer_category_items [] headline = ''Other''"
| "infer_category_items ((k, v) # items) headline =
     (if py_in (lower k) (lower headline) then v else infer_category_items items headline)"

definition infer_category :: "string \<Rightarrow> string" where
  "infer_category headline = infer_category_items EVENT_CATEGORIES headline"

text \<open>
  The specification's reading of the classifier, kept apart from the loop above: the
  category of the first item of the table, in table order, whose keyword occurs in the
  headline without regard to case, and \<open>Other\<close> when there is none.
\<close>

definition first_match_category :: "string \<Rightarrow> string" where
  "first_match_category headline =
     (case find (\<lambda>kv. py_in (lower (fst kv)) (lower headline)) EVENT_CATEGORIES of
        None \<Rightarrow> ''Other''
      | Some kv \<Rightarrow> snd kv)"

text \<open>
  \<^verbatim>\<open>
  def contains_keyword(text, keywords):
      text_lower = text.lower()
      return any(kw.lower() in text_lower for kw in keywords)
  \<close>
\<close>

definition contains_keyword :: "string \<Rightarrow> string list \<Rightarrow> bool" where
  "contains_keyword text keywords =
     (let text_lower = lower text in list_ex (\<lambda>kw. py_in (lower kw) text_lower) keywords)"

section \<open>Coverage adapter\<close>

text \<open>
  What \<^verbatim>\<open>r.json()\<close> can hand back: a parsed JSON document. An object is the list of its
  items, read with \<^const>\<open>map_of\<close>.
\<close>

datatype json =
    JNull
  | JBool bool
  | JInt int
  | JFloat real
  | JStr string
  | JArr "json list"
  | JObj "(string \<times> json) list"

text \<open>
  The request that \<^verbatim>\<open>fetch_news_coverage\<close> sends. The two ends of the window are kept as
  epoch milliseconds; the source renders them with \<^verbatim>\<open>isoformat() + "Z"\<close>. The remaining
  parameters (\<^verbatim>\<open>sortBy\<close>, \<^verbatim>\<open>apiKey\<close>, \<^verbatim>\<open>language\<close>) are constants.
\<close>

record request =
  q :: string
  from_ms :: int
  to_ms :: int

text \<open>
  The outcome of \<^verbatim>\<open>requests.get\<close>: either it raises (no connection, a timeout reported
  by the transport), or it returns a response with a status code and a body, which
  \<^verbatim>\<open>r.json()\<close> parses or rejects (\<open>None\<close>).
\<close>

datatype get_outcome =
    Raised
  | Returned (status_code: nat) (parsed_body: "json option")

text \<open>
  The search service is outside the program. Its answer to a request may depend on the
  requests sent before, so it is a function of both.
\<close>

type_synonym news_service = "request list \<Rightarrow> request \<Rightarrow> get_outcome"

definition ONE_DAY_MS :: int where
  "ONE_DAY_MS = 86400000"

definition coverage_request :: "string \<Rightarrow> int \<Rightarrow> request" where
  "coverage_request keyword event_time_ms =
     \<lparr>q = keyword, from_ms = event_time_ms - ONE_DAY_MS, to_ms = event_time_ms + ONE_DAY_MS\<rparr>"

text \<open>\<^verbatim>\<open>raise_for_status\<close> raises on the status codes 400 to 599.\<close>

definition raise_for_status :: "nat \<Rightarrow> bool" where
  "raise_for_status code = (400 \<le> code \<and> code < 600)"

text \<open>
  \<^verbatim>\<open>
  try:
      r = requests.get(NEWSAPI_ENDPOINT, params=params)
      r.raise_for_status()
      data = r.json()
      coverage_count = data.get("totalResults", 0)
  except:
      coverage_count = 0
  return coverage_count
  \<close>
  Only a dictionary has \<^verbatim>\<open>get\<close>; on any other document the attribute lookup raises
  inside the \<^verbatim>\<open>try\<close>. The returned value is whatever the document holds under the key.
\<close>

definition response_count :: "get_outcome \<Rightarrow> json" where
  "response_count out =
     (case out of
        Raised \<Rightarrow> JInt 0
      | Returned code body \<Rightarrow>
          if raise_for_status code then JInt 0
          else (case body of
                  None \<Rightarrow> JInt 0
                | Some (JObj items) \<Rightarrow>
                    (case map_of items ''totalResults'' of None \<Rightarrow> JInt 0 | Some v \<Rightarrow> v)
                | Some _ \<Rightarrow> JInt 0))"

text \<open>
  Before the \<^verbatim>\<open>try\<close> the function computes the window:
  \<^verbatim>\<open>
  event_time = datetime.utcfromtimestamp(event_time_ms / 1000.0)
  from_time = (event_time - pd.Timedelta("1 day")).isoformat() + "Z"
  to_time = (event_time + pd.Timedelta("1 day")).isoformat() + "Z"
  \<close>
  A \<^verbatim>\<open>datetime\<close> lies in the years 1 to 9999, that is from \<open>MIN_DATETIME_MS\<close> up to,
  but not including, \<open>END_DATETIME_MS\<close>. \<^verbatim>\<open>utcfromtimestamp\<close> raises outside of that
  (\<^verbatim>\<open>ValueError\<close>; for magnitudes beyond the platform's own range the library reports
  \<^verbatim>\<open>OverflowError\<close> or \<^verbatim>\<open>OSError\<close> instead, which the model does not tell apart), and
  moving a \<^verbatim>\<open>datetime\<close> out of the range by a day raises \<^verbatim>\<open>OverflowError\<close>. None of
  this is inside the \<^verbatim>\<open>try\<close>.

  The call is an effect: the function takes the list of the requests sent so far and
  returns it with this request added, next to the count.
\<close>

definition MIN_DATETIME_MS :: int where
  "MIN_DATETIME_MS = - 62135596800000"

definition END_DATETIME_MS :: int where
  "END_DATETIME_MS = 253402300800000"

definition fetch_news_coverage ::
  "news_service \<Rightarrow> string \<Rightarrow> int \<Rightarrow> request list \<Rightarrow> py_error + (json \<times> request list)" where
  "fetch_news_coverage service keyword event_time_ms sent =
     (if event_time_ms < MIN_DATETIME_MS \<or> END_DATETIME_MS \<le> event_time_ms then Inl ValueError
      else if event_time_ms - ONE_DAY_MS < MIN_DATETIME_MS then Inl OverflowError
      else if END_DATETIME_MS \<le> event_time_ms + ONE_DAY_MS then Inl OverflowError
      else (let params = coverage_request keyword event_time_ms
            in Inr (response_count (service sent params), sent @ [params])))"

text \<open>
  \<^verbatim>\<open>
  def compute_coverage_factor(coverage_count):
      if coverage_count == 0:
          return 1.0
      elif 1 <= coverage_count <= 5:
          return 1.1
      else:
          return 1.2
  \<close>
  The argument is the value \<^verbatim>\<open>fetch_news_coverage\<close> returned. \<^verbatim>\<open>==\<close> is defined between
  any two values; \<^verbatim>\<open><=\<close> between a number and \<^verbatim>\<open>None\<close>, a string, a list or a dictionary
  raises \<^verbatim>\<open>TypeError\<close>. A Boolean counts as the integer 0 or 1.
\<close>

definition numeric_value :: "json \<Rightarrow> real option" where
  "numeric_value v =
     (case v of
        JInt n \<Rightarrow> Some (real_of_int n)
      | JFloat x \<Rightarrow> Some x
      | JBool b \<Rightarrow> Some (if b then 1 else 0)
      | _ \<Rightarrow> None)"

definition compute_coverage_factor :: "json \<Rightarrow> py_error + real" where
  "compute_coverage_factor coverage_count =
     (case numeric_value coverage_count of
        None \<Rightarrow> Inl TypeError
      | Some c \<Rightarrow>
          if c = 0 then Inr 1.0
          else if 1 \<le> c \<and> c \<le> 5 then Inr 1.1
          else Inr 1.2)"

section \<open>Sentiment factor\<close>

text \<open>
  \<^verbatim>\<open>
  def sentiment_factor(s):
      if s < -0.05:
          return 1 + (abs(s)*0.1)
      else:
          return 1.0
  \<close>
\<close>

definition sentiment_factor :: "real \<Rightarrow> real" where
  "sentiment_factor s = (if s < - 0.05 then 1 + (\<bar>s\<bar> * 0.1) else 1.0)"

section \<open>Time normalizer\<close>

text \<open>
  \<^verbatim>\<open>str.split()\<close> without an argument cuts the text at runs of whitespace and returns
  the non-empty pieces. Below 256 the whitespace characters of Python are the codes 9 to
  13, 28 to 31, 32, 133 and 160; the pattern matcher of \<^verbatim>\<open>strptime\<close> uses the same set.
\<close>

definition is_space :: "char \<Rightarrow> bool" where
  "is_space c =
     (let n = (of_char c :: nat)
      in (9 \<le> n \<and> n \<le> 13) \<or> (28 \<le> n \<and> n \<le> 31) \<or> n = 32 \<or> n = 133 \<or> n = 160)"

fun split_from :: "string \<Rightarrow> string \<Rightarrow> string list" where
  "split_from cur [] = (if cur = [] then [] else [cur])"
| "split_from cur (c # cs) =
     (if is_space c then (if cur = [] then split_from [] cs else cur # split_from [] cs)
      else split_from (cur @ [c]) cs)"

definition split :: "string \<Rightarrow> string list" where
  "split s = split_from [] s"

text \<open>
  \<^verbatim>\<open>datetime.strptime(full_str, "%b %d, %Y %I:%M%p")\<close> is library code. It is modelled
  for this one format, in the C locale, as the library documents it: the text has to
  match, from its first to its last character and without regard to case,
  a month abbreviation, whitespace, a day (\<open>01\<close> to \<open>31\<close>, or \<open>1\<close> to \<open>9\<close>), a comma,
  whitespace, four digits of year, whitespace, an hour (\<open>10\<close> to \<open>12\<close>, \<open>01\<close> to \<open>09\<close>,
  or \<open>1\<close> to \<open>9\<close>), a colon, a minute (two digits up to \<open>59\<close>, or one digit) and
  \<open>am\<close> or \<open>pm\<close>; the date has to exist. Anything else raises \<^verbatim>\<open>ValueError\<close>.
  Each directive is followed by a character that it cannot itself consume, so the
  longest alternative can be taken first without backtracking.
\<close>

record datetime =
  year :: nat
  month :: nat
  day :: nat
  hour :: nat
  minute :: nat

definition digit_value :: "char \<Rightarrow> nat option" where
  "digit_value c = map_of (zip ''0123456789'' [0 ..< 10]) c"

definition MONTH_ABBR :: "(string \<times> nat) list" where
  "MONTH_ABBR =
     [(''jan'', 1), (''feb'', 2), (''mar'', 3), (''apr'', 4), (''may'', 5), (''jun'', 6),
      (''jul'', 7), (''aug'', 8), (''sep'', 9), (''oct'', 10), (''nov'', 11), (''dec'', 12)]"

text \<open>Each parser returns the value it read and the text that is left, or \<open>None\<close>.\<close>

definition parse_month :: "string \<Rightarrow> (nat \<times> string) option" where
  "parse_month s =
     (case map_of MONTH_ABBR (lower (take 3 s)) of
        None \<Rightarrow> None
      | Some m \<Rightarrow> Some (m, drop 3 s))"

definition parse_spaces :: "string \<Rightarrow> string option" where
  "parse_spaces s =
     (case s of
        [] \<Rightarrow> None
      | c # cs \<Rightarrow> if is_space c then Some (dropWhile is_space cs) else None)"

definition parse_literal :: "char \<Rightarrow> string \<Rightarrow> string option" where
  "parse_literal x s = (case s of [] \<Rightarrow> None | c # cs \<Rightarrow> if c = x then Some cs else None)"

definition two_digits :: "string \<Rightarrow> (nat \<times> nat \<times> string) option" where
  "two_digits s =
     (case s of
        c1 # c2 # cs \<Rightarrow>
          (case (digit_value c1, digit_value c2) of
             (Some d1, Some d2) \<Rightarrow> Some (d1, d2, cs)
           | _ \<Rightarrow> None)
      | _ \<Rightarrow> None)"

definition one_digit :: "string \<Rightarrow> (nat \<times> string) option" where
  "one_digit s =
     (case s of
        c # cs \<Rightarrow> (case digit_value c of Some d \<Rightarrow> Some (d, cs) | None \<Rightarrow> None)
      | [] \<Rightarrow> None)"

definition parse_day :: "string \<Rightarrow> (nat \<times> string) option" where
  "parse_day s =
     (case two_digits s of
        Some (d1, d2, rest) \<Rightarrow>
          if 1 \<le> 10 * d1 + d2 \<and> 10 * d1 + d2 \<le> 31 then Some (10 * d1 + d2, rest)
          else (case one_digit s of
                  Some (d, rest1) \<Rightarrow> if 1 \<le> d then Some (d, rest1) else None
                | None \<Rightarrow> None)
      | None \<Rightarrow>
          (case one_digit s of
             Some (d, rest1) \<Rightarrow> if 1 \<le> d then Some (d, rest1) else None
           | None \<Rightarrow> None))"

definition parse_year :: "string \<Rightarrow> (nat \<times> string) option" where
  "parse_year s =
     (case two_digits s of
        Some (d1, d2, rest) \<Rightarrow>
          (case two_digits rest of
             Some (d3, d4, rest') \<Rightarrow> Some (1000 * d1 + 100 * d2 + 10 * d3 + d4, rest')
           | None \<Rightarrow> None)
      | None \<Rightarrow> None)"

definition parse_hour12 :: "string \<Rightarrow> (nat \<times> string) option" where
  "parse_hour12 s =
     (case two_digits s of
        Some (d1, d2, rest) \<Rightarrow>
          if 1 \<le> 10 * d1 + d2 \<and> 10 * d1 + d2 \<le> 12 then Some (10 * d1 + d2, rest)
          else (case one_digit s of
                  Some (d, rest1) \<Rightarrow> if 1 \<le> d then Some (d, rest1) else None
                | None \<Rightarrow> None)
      | None \<Rightarrow>
          (case one_digit s of
             Some (d, rest1) \<Rightarrow> if 1 \<le> d then Some (d, rest1) else None
           | None \<Rightarrow> None))"

definition parse_minute :: "string \<Rightarrow> (nat \<times> string) option" where
  "parse_minute s =
     (case two_digits s of
        Some (d1, d2, rest) \<Rightarrow>
          if d1 \<le> 5 then Some (10 * d1 + d2, rest) else one_digit s
      | None \<Rightarrow> one_digit s)"

text \<open>The last directive: the text that is left has to be \<open>am\<close> or \<open>pm\<close>, nothing more.\<close>

definition parse_ampm :: "string \<Rightarrow> bool option" where
  "parse_ampm s =
     (if lower s = ''am'' then Some False
      else if lower s = ''pm'' then Some True
      else None)"

definition is_leap :: "nat \<Rightarrow> bool" where
  "is_leap y = (y mod 4 = 0 \<and> (y mod 100 \<noteq> 0 \<or> y mod 400 = 0))"

definition DAYS_IN_MONTH :: "nat list" where
  "DAYS_IN_MONTH = [31, 28, 31, 30, 31, 30, 31, 31, 30, 31, 30, 31]"

definition days_in_month :: "nat \<Rightarrow> nat \<Rightarrow> nat" where
  "days_in_month y m = (if m = 2 \<and> is_leap y then 29 else DAYS_IN_MONTH ! (m - 1))"

text \<open>
  The hour of a 12-hour clock: \<open>12am\<close> is hour 0, \<open>12pm\<close> is hour 12, any other
  afternoon hour gains 12.
\<close>

definition hour24 :: "nat \<Rightarrow> bool \<Rightarrow> nat" where
  "hour24 h pm = (if pm then (if h = 12 then 12 else h + 12) else (if h = 12 then 0 else h))"

definition bind_opt :: "'a option \<Rightarrow> ('a \<Rightarrow> 'b option) \<Rightarrow> 'b option" where
  "bind_opt x f = (case x of None \<Rightarrow> None | Some a \<Rightarrow> f a)"

definition match_format :: "string \<Rightarrow> datetime option" where
  "match_format s =
     bind_opt (parse_month s) (\<lambda>(mo, s1).
     bind_opt (parse_spaces s1) (\<lambda>s2.
     bind_opt (parse_day s2) (\<lambda>(d, s3).
     bind_opt (parse_literal CHR '','' s3) (\<lambda>s4.
     bind_opt (parse_spaces s4) (\<lambda>s5.
     bind_opt (parse_year s5) (\<lambda>(y, s6).
     bind_opt (parse_spaces s6) (\<lambda>s7.
     bind_opt (parse_hour12 s7) (\<lambda>(h, s8).
     bind_opt (parse_literal CHR '':'' s8) (\<lambda>s9.
     bind_opt (parse_minute s9) (\<lambda>(mi, s10).
     bind_opt (parse_ampm s10) (\<lambda>pm.
       Some \<lparr>year = y, month = mo, day = d, hour = hour24 h pm, minute = mi\<rparr>)))))))))))"

definition strptime :: "string \<Rightarrow> py_error + datetime" where
  "strptime s =
     (case match_format s of
        None \<Rightarrow> Inl ValueError
      | Some dt \<Rightarrow>
          if 1 \<le> year dt \<and> day dt \<le> days_in_month (year dt) (month dt) then Inr dt
          else Inl ValueError)"

text \<open>
  \<^verbatim>\<open>pytz.UTC.localize(dt).timestamp()\<close>: the seconds from 1970-01-01 00:00 UTC to \<open>dt\<close>
  read as UTC, counted through the day number of the proleptic Gregorian calendar
  (day 1 is 0001-01-01, day 719163 is 1970-01-01).
\<close>

definition days_before_year :: "nat \<Rightarrow> int" where
  "days_before_year y =
     (let y1 = int y - 1 in y1 * 365 + y1 div 4 - y1 div 100 + y1 div 400)"

definition days_before_month :: "nat \<Rightarrow> nat \<Rightarrow> int" where
  "days_before_month y m = int (sum_list (map (days_in_month y) [1 ..< m]))"

definition toordinal :: "datetime \<Rightarrow> int" where
  "toordinal dt = days_before_year (year dt) + days_before_month (year dt) (month dt) + int (day dt)"

definition timestamp :: "datetime \<Rightarrow> int" where
  "timestamp dt = (toordinal dt - 719163) * 86400 + int (hour dt) * 3600 + int (minute dt) * 60"

text \<open>
  \<^verbatim>\<open>
  def convert_to_utc_ms(date_str, time_str):
      parts = date_str.split()
      if len(parts) >= 3:
          month_str = parts[1]
          day_str = parts[2]
      else:
          return None
      full_str = f"{month_str} {day_str}, 2024 {time_str}"
      dt = datetime.strptime(full_str, "%b %d, %Y %I:%M%p")
      dt_utc = pytz.UTC.localize(dt)
      return int(dt_utc.timestamp() * 1000)
  \<close>
  The result \<open>Inr None\<close> is Python's \<^verbatim>\<open>None\<close>; \<open>Inl\<close> is an exception that leaves the
  function.
\<close>

definition convert_to_utc_ms :: "string \<Rightarrow> string \<Rightarrow> py_error + int option" where
  "convert_to_utc_ms date_str time_str =
     (let parts = split date_str in
      if length parts \<ge> 3 then
        (let month_str = parts ! 1;
             day_str = parts ! 2;
             full_str = month_str @ '' '' @ day_str @ '', 2024 '' @ time_str
         in case strptime full_str of
              Inl e \<Rightarrow> Inl e
            | Inr dt \<Rightarrow> Inr (Some (timestamp dt * 1000)))
      else Inr None)"

section \<open>Frames\<close>

text \<open>
  A data frame is the list of its rows. \<^verbatim>\<open>enrich_data\<close> reads the columns
  \<^verbatim>\<open>currency\<close>, \<^verbatim>\<open>impact\<close>, \<^verbatim>\<open>date\<close>, \<^verbatim>\<open>time\<close>, \<^verbatim>\<open>event\<close> of the frame it is given and,
  inside \<^verbatim>\<open>domain_factor\<close>, a column \<^verbatim>\<open>headline\<close>. The frame that the driver passes is
  read back from the file written by \<^verbatim>\<open>reformat_scraped_data\<close>, whose columns are
  \<^verbatim>\<open>['date', 'time', 'currency', 'impact', 'event']\<close>: it has no column \<^verbatim>\<open>headline\<close>.
  The field \<open>headline\<close> is therefore optional: \<open>None\<close> when the frame has no such
  column, the cell otherwise. A frame has a column in all of its rows or in none, so the
  lists that stand for frames have \<open>None\<close> there in every row or in no row.
  Cells are texts; missing cells, and what the table library does on a frame that has
  no rows left, are outside the model.
\<close>

record raw_row =
  date :: string
  time :: string
  currency :: string
  impact :: string
  event :: string
  headline :: "string option"

text \<open>The columns that \<^verbatim>\<open>enrich_data\<close> has added when \<^verbatim>\<open>domain_factor\<close> is applied.\<close>

record row =
  raw :: raw_row
  time_ms :: int
  severity_category :: string
  severity_level :: int
  category :: string
  sentiment_score :: real
  historical_volatility :: real
  future_event :: bool

text \<open>The columns that the loop over the rows reads in addition.\<close>

record factor_row =
  base :: row
  domain_factor_col :: real
  sentiment_factor_col :: real

text \<open>The frame after the loop, before the projection to the final columns.\<close>

record scored_row =
  factors :: factor_row
  final_severity :: "real option"
  anticipated_severity :: real

text \<open>One row of the frame that \<^verbatim>\<open>enrich_data\<close> returns, \<^verbatim>\<open>event\<close> renamed.\<close>

record enriched_record =
  o_time_ms :: int
  o_severity_level :: int
  o_severity_category :: string
  o_headline :: string
  o_category :: string
  o_sentiment_score :: real
  o_historical_volatility :: real
  o_future_event :: bool
  o_final_severity :: "real option"
  o_anticipated_severity :: real

text \<open>
  Sequencing in the presence of exceptions, and \<^verbatim>\<open>apply\<close> along the rows: the function is
  called on the rows in order and the first exception leaves \<^verbatim>\<open>enrich_data\<close>.
\<close>

definition bind :: "'e + 'a \<Rightarrow> ('a \<Rightarrow> 'e + 'b) \<Rightarrow> 'e + 'b" where
  "bind x f = (case x of Inl e \<Rightarrow> Inl e | Inr a \<Rightarrow> f a)"

fun apply_rows :: "('a \<Rightarrow> 'e + 'b) \<Rightarrow> 'a list \<Rightarrow> 'e + 'b list" where
  "apply_rows f [] = Inr []"
| "apply_rows f (x # xs) =
     (case f x of
        Inl e \<Rightarrow> Inl e
      | Inr y \<Rightarrow> (case apply_rows f xs of Inl e \<Rightarrow> Inl e | Inr ys \<Rightarrow> Inr (y # ys)))"

text \<open>\<^verbatim>\<open>dropna(subset=['time(ms)'])\<close> keeps the rows whose time is not \<^verbatim>\<open>None\<close>.\<close>

fun dropna :: "('a \<times> 'b option) list \<Rightarrow> ('a \<times> 'b) list" where
  "dropna [] = []"
| "dropna ((r, None) # rest) = dropna rest"
| "dropna ((r, Some t) # rest) = (r, t) # dropna rest"

section \<open>Domain factor\<close>

text \<open>
  \<^verbatim>\<open>
  def domain_factor(row):
      factor = 1.0
      if row['category'] in ["RateDecision", "MonetaryPolicy"]:
          factor *= 1.2
      if row['category'] == "Inflation":
          factor *= 1.15
      if row['category'] == "NFP":
          factor *= 1.2
      if contains_keyword(row['headline'], GEOPOLITICAL_KEYWORDS):
          factor *= 1.25
      if contains_keyword(row['headline'], COMMODITY_KEYWORDS):
          factor *= 1.1
      if row['headline'] and 'USD' in df['currency'].unique():
          factor *= 1.1
      return factor
  \<close>
  The function is local to \<^verbatim>\<open>enrich_data\<close> and reads its variable \<^verbatim>\<open>df\<close>, the frame at
  the time of the call; the model takes that frame as an argument. Indexing a row with
  a column that the frame does not have raises \<^verbatim>\<open>KeyError\<close>.
\<close>

definition times_if :: "bool \<Rightarrow> real \<Rightarrow> real \<Rightarrow> real" where
  "times_if b m factor = (if b then factor * m else factor)"

definition unique :: "string list \<Rightarrow> string list" where
  "unique xs = rev (remdups (rev xs))"

definition domain_factor :: "row list \<Rightarrow> row \<Rightarrow> py_error + real" where
  "domain_factor df r =
     (let factor = 1.0;
          factor = times_if (category r \<in> set [''RateDecision'', ''MonetaryPolicy'']) 1.2 factor;
          factor = times_if (category r = ''Inflation'') 1.15 factor;
          factor = times_if (category r = ''NFP'') 1.2 factor
      in case headline (raw r) of
           None \<Rightarrow> Inl (KeyError ''headline'')
         | Some h \<Rightarrow>
            (let factor = times_if (contains_keyword h GEOPOLITICAL_KEYWORDS) 1.25 factor;
                 factor = times_if (contains_keyword h COMMODITY_KEYWORDS) 1.1 factor;
                 factor = times_if (h \<noteq> [] \<and> ''USD'' \<in> set (unique (map (currency \<circ> raw) df)))
                            1.1 factor
             in Inr factor))"

section \<open>Severity composer\<close>

definition log1p :: "real \<Rightarrow> real" where
  "log1p x = ln (1 + x)"

text \<open>
  \<^verbatim>\<open>
  for i, row in df.iterrows():
      official_sev = row['severity_level']
      vol_factor = 1 + math.log1p(row['historical_volatility'])
      sentiment_f = row['sentiment_factor']
      domain_f = row['domain_factor']
      if row['future_event']:
          anticipated_sev = official_sev * vol_factor * 1.0 * sentiment_f * domain_f
          final_sev = None
      else:
          coverage_count = fetch_news_coverage(row['category'], row['time(ms)'])
          coverage_factor = compute_coverage_factor(coverage_count)
          final_sev = official_sev * vol_factor * coverage_factor * sentiment_f * domain_f
          anticipated_sev = official_sev * vol_factor * 1.0 * sentiment_f * domain_f
      final_severities.append(final_sev)
      anticipated_severities.append(anticipated_sev)
  \<close>
  One pass of the loop body is \<open>severity_step\<close>: from the requests sent so far and a row
  to the two values appended and the requests sent after it. The loop is the recursion
  over the rows; the state is the two lists and the requests sent. Each product is
  written in the order of the source and is exact; a double product rounds after every
  factor, so an equation between two products with the factors in a different order
  would hold here without holding in the program.
\<close>

definition severity_step ::
  "news_service \<Rightarrow> request list \<Rightarrow> factor_row \<Rightarrow> py_error + (real option \<times> real \<times> request list)" where
  "severity_step service sent r =
     (let official_sev = real_of_int (severity_level (base r));
          vol_factor = 1 + log1p (historical_volatility (base r));
          sentiment_f = sentiment_factor_col r;
          domain_f = domain_factor_col r
      in if future_event (base r) then
           Inr (None, official_sev * vol_factor * 1.0 * sentiment_f * domain_f, sent)
         else
           (case fetch_news_coverage service (category (base r)) (time_ms (base r)) sent of
              Inl e \<Rightarrow> Inl e
            | Inr (coverage_count, sent') \<Rightarrow>
                (case compute_coverage_factor coverage_count of
                   Inl e \<Rightarrow> Inl e
                 | Inr coverage_factor \<Rightarrow>
                     Inr (Some (official_sev * vol_factor * coverage_factor * sentiment_f * domain_f),
                          official_sev * vol_factor * 1.0 * sentiment_f * domain_f,
                          sent'))))"

fun severity_loop ::
  "news_service \<Rightarrow> factor_row list \<Rightarrow> real option list \<times> real list \<times> request list \<Rightarrow>
   py_error + (real option list \<times> real list \<times> request list)" where
  "severity_loop service [] state = Inr state"
| "severity_loop service (r # rows) (final_severities, anticipated_severities, sent) =
     (case severity_step service sent r of
        Inl e \<Rightarrow> Inl e
      | Inr (final_sev, anticipated_sev, sent') \<Rightarrow>
          severity_loop service rows
            (final_severities @ [final_sev], anticipated_severities @ [anticipated_sev], sent'))"

section \<open>Pipeline orchestrator\<close>

text \<open>
  \<^verbatim>\<open>enrich_data\<close> calls three things outside the program: the sentiment analyser
  (\<open>sia\<close>, the compound score of a text), the clock (\<open>now_ms\<close>, read once) and the
  search service. They are arguments of the model. \<open>enrich_frame\<close> is the function up
  to the assignment of the two severity columns; it also returns the requests sent.
  \<open>enrich_data\<close> adds the projection to the final columns.
\<close>

definition severity_category_of :: "string \<Rightarrow> py_error + string" where
  "severity_category_of c = bind (getitem COLOR_SEVERITY_MAP c) (\<lambda>v. Inr (fst v))"

definition severity_level_of :: "string \<Rightarrow> py_error + int" where
  "severity_level_of c = bind (getitem COLOR_SEVERITY_MAP c) (\<lambda>v. Inr (snd v))"

definition make_row :: "(string \<Rightarrow> real) \<Rightarrow> int \<Rightarrow> (raw_row \<times> int) \<times> string \<times> int \<Rightarrow> row" where
  "make_row sia now_ms x =
     (case x of ((r, t), sev_cat, sev_lvl) \<Rightarrow>
        \<lparr>raw = r, time_ms = t, severity_category = sev_cat, severity_level = sev_lvl,
         category = infer_category (event r), sentiment_score = sia (event r),
         historical_volatility = 0.0, future_event = (t > now_ms)\<rparr>)"

definition make_factor_row :: "row \<times> real \<Rightarrow> factor_row" where
  "make_factor_row x =
     (case x of (r, d) \<Rightarrow>
        \<lparr>base = r, domain_factor_col = d,
         sentiment_factor_col = sentiment_factor (sentiment_score r)\<rparr>)"

definition make_scored_row :: "factor_row \<times> real option \<times> real \<Rightarrow> scored_row" where
  "make_scored_row x =
     (case x of (r, f, a) \<Rightarrow> \<lparr>factors = r, final_severity = f, anticipated_severity = a\<rparr>)"

text \<open>
  The stages of \<^verbatim>\<open>enrich_data\<close>, in the order of the source.
  \<^verbatim>\<open>
  df = df[df['currency'].isin(ALLOWED_CURRENCY_CODES)]
  df = df[df['impact'].isin(ALLOWED_IMPACT_COLORS)]
  \<close>
\<close>

definition filter_rows :: "raw_row list \<Rightarrow> raw_row list" where
  "filter_rows df0 =
     (let df1 = filter (\<lambda>r. currency r \<in> set ALLOWED_CURRENCY_CODES) df0
      in filter (\<lambda>r. impact r \<in> set ALLOWED_IMPACT_COLORS) df1)"

text \<open>
  \<^verbatim>\<open>
  df['time(ms)'] = df.apply(lambda row: convert_to_utc_ms(row['date'], row['time']), axis=1)
  df = df.dropna(subset=['time(ms)'])
  \<close>
\<close>

definition add_time_ms :: "raw_row list \<Rightarrow> py_error + (raw_row \<times> int) list" where
  "add_time_ms df =
     bind (apply_rows (\<lambda>r. convert_to_utc_ms (date r) (time r)) df)
       (\<lambda>times. Inr (dropna (zip df times)))"

text \<open>
  \<^verbatim>\<open>
  df['severity_category'] = df['impact'].apply(lambda c: COLOR_SEVERITY_MAP[c][0])
  df['severity_level'] = df['impact'].apply(lambda c: COLOR_SEVERITY_MAP[c][1])
  \<close>
\<close>

definition add_severity ::
  "(raw_row \<times> int) list \<Rightarrow> py_error + ((raw_row \<times> int) \<times> string \<times> int) list" where
  "add_severity df =
     bind (apply_rows (\<lambda>x. severity_category_of (impact (fst x))) df) (\<lambda>sev_cats.
     bind (apply_rows (\<lambda>x. severity_level_of (impact (fst x))) df) (\<lambda>sev_lvls.
       Inr (zip df (zip sev_cats sev_lvls))))"

text \<open>
  \<^verbatim>\<open>
  df['domain_factor'] = df.apply(domain_factor, axis=1)
  df['sentiment_factor'] = df['sentiment_score'].apply(sentiment_factor)
  \<close>
\<close>

definition add_factors :: "row list \<Rightarrow> py_error + factor_row list" where
  "add_factors df =
     bind (apply_rows (domain_factor df) df)
       (\<lambda>domain_factors. Inr (map make_factor_row (zip df domain_factors)))"

text \<open>
  The loop, started with two empty lists, and
  \<^verbatim>\<open>
  df['final_severity'] = final_severities
  df['anticipated_severity'] = anticipated_severities
  \<close>
\<close>

definition add_severities ::
  "news_service \<Rightarrow> factor_row list \<Rightarrow> py_error + (scored_row list \<times> request list)" where
  "add_severities service df =
     bind (severity_loop service df ([], [], [])) (\<lambda>state.
       case state of (final_severities, anticipated_severities, sent) \<Rightarrow>
         Inr (map make_scored_row (zip df (zip final_severities anticipated_severities)), sent))"

definition enrich_frame ::
  "(string \<Rightarrow> real) \<Rightarrow> int \<Rightarrow> news_service \<Rightarrow> raw_row list \<Rightarrow>
   py_error + (scored_row list \<times> request list)" where
  "enrich_frame sia now_ms service df0 =
     bind (add_time_ms (filter_rows df0)) (\<lambda>df3.
     bind (add_severity df3) (\<lambda>df3'.
     bind (add_factors (map (make_row sia now_ms) df3')) (\<lambda>df5.
       add_severities service df5)))"

definition project :: "scored_row \<Rightarrow> enriched_record" where
  "project s =
     (let r = base (factors s)
      in \<lparr>o_time_ms = time_ms r,
          o_severity_level = severity_level r,
          o_severity_category = severity_category r,
          o_headline = event (raw r),
          o_category = category r,
          o_sentiment_score = sentiment_score r,
          o_historical_volatility = historical_volatility r,
          o_future_event = future_event r,
          o_final_severity = final_severity s,
          o_anticipated_severity = anticipated_severity s\<rparr>)"

definition enrich_data ::
  "(string \<Rightarrow> real) \<Rightarrow> int \<Rightarrow> news_service \<Rightarrow> raw_row list \<Rightarrow> py_error + enriched_record list" where
  "enrich_data sia now_ms service df0 =
     bind (enrich_frame sia now_ms service df0) (\<lambda>res. Inr (map project (fst res)))"

section \<open>Example inputs\<close>

text \<open>
  A search service that answers every request with status 200 and the document
  \<^verbatim>\<open>{"totalResults": null}\<close>, and one that reports three articles.
\<close>

definition service_null_total :: news_service where
  "service_null_total sent params = Returned 200 (Some (JObj [(''totalResults'', JNull)]))"

definition service_three :: news_service where
  "service_three sent params = Returned 200 (Some (JObj [(''totalResults'', JInt 3)]))"

text \<open>
  A row as the driver produces it (no column \<^verbatim>\<open>headline\<close>) whose time cell is the
  calendar's text for an event without a clock time.
\<close>

definition all_day_row :: raw_row where
  "all_day_row =
     \<lparr>date = ''Wed Oct 2'', time = ''All Day'', currency = ''USD'', impact = ''red'',
      event = ''Bank Holiday'', headline = None\<rparr>"

text \<open>
  A frame that has a column \<^verbatim>\<open>headline\<close> next to \<^verbatim>\<open>event\<close>, with one event before and
  one after the sample clock reading, a sentiment analyser that scores every text
  \<open>-0.5\<close>, and what \<^verbatim>\<open>enrich_data\<close> makes of the two rows.
\<close>

definition fomc_row :: raw_row where
  "fomc_row =
     \<lparr>date = ''Wed Oct 2'', time = ''8:30am'', currency = ''USD'', impact = ''red'',
      event = ''Fed FOMC Rate Decision'', headline = Some ''Fed FOMC Rate Decision''\<rparr>"

definition cpi_row :: raw_row where
  "cpi_row =
     \<lparr>date = ''Thu Oct 31'', time = ''2:00pm'', currency = ''EUR'', impact = ''orange'',
      event = ''CPI Flash Estimate'', headline = Some ''CPI Flash Estimate''\<rparr>"

definition sample_frame :: "raw_row list" where
  "sample_frame = [fomc_row, cpi_row]"

definition sample_sia :: "string \<Rightarrow> real" where
  "sample_sia text = - 0.5"

definition sample_now :: int where
  "sample_now = 1729000000000"


definition fomc_factors :: factor_row where
  "fomc_factors =
     \<lparr>base = \<lparr>raw = fomc_row, time_ms = 1727857800000, severity_category = ''High'',
              severity_level = 3, category = ''MonetaryPolicy'', sentiment_score = - 0.5,
              historical_volatility = 0, future_event = False\<rparr>,
      domain_factor_col = 1.32, sentiment_factor_col = 1.05\<rparr>"

definition cpi_factors :: factor_row where
  "cpi_factors =
     \<lparr>base = \<lparr>raw = cpi_row, time_ms = 1730383200000, severity_category = ''Medium'',
              severity_level = 2, category = ''Inflation'', sentiment_score = - 0.5,
              historical_volatility = 0, future_event = True\<rparr>,
      domain_factor_col = 1.265, sentiment_factor_col = 1.05\<rparr>"

definition sample_scored :: "scored_row list" where
  "sample_scored =
     [\<lparr>factors = fomc_factors, final_severity = Some 4.5738, anticipated_severity = 4.158\<rparr>,
      \<lparr>factors = cpi_factors, final_severity = None, anticipated_severity = 2.6565\<rparr>]"

text \<open>
  Two rows as the driver produces them (no column \<^verbatim>\<open>headline\<close>): a USD row whose event
  text holds two geopolitical keywords, and a EUR row.
\<close>

definition war_row :: raw_row where
  "war_row =
     \<lparr>date = ''Wed Oct 2'', time = ''8:30am'', currency = ''USD'', impact = ''red'',
      event = ''Sanctions and war fears hit markets'', headline = None\<rparr>"

definition euro_row :: raw_row where
  "euro_row =
     \<lparr>date = ''Thu Oct 3'', time = ''9:00am'', currency = ''EUR'', impact = ''orange'',
      event = ''ECB President Speaks'', headline = None\<rparr>"

section \<open>Properties of the factor calculators\<close>

text \<open>
  C8. For every sentiment score \<open>s\<close>, \<open>sentiment_factor s\<close> is \<open>1 + |s| * 0.1\<close> when
  \<open>s\<close> is strictly below \<open>-0.05\<close> and \<open>1.0\<close> otherwise. The boundary is exclusive:
  the factor is \<open>1.0\<close> at \<open>-0.05\<close>, \<open>1.05\<close> at \<open>-0.5\<close> and \<open>1.0\<close> at \<open>0.3\<close>.
\<close>

theorem sentiment_factor_step:
  "sentiment_factor s = (if s < - 0.05 then 1 + \<bar>s\<bar> * 0.1 else 1)
   \<and> sentiment_factor (- 0.05) = 1
   \<and> sentiment_factor (- 0.5) = 1.05
   \<and> sentiment_factor 0.3 = 1"
  by (simp add: sentiment_factor_def)

text \<open>
  C9. For every coverage count \<open>c \<ge> 0\<close>, \<open>compute_coverage_factor\<close> is the step
  function with three tiers: \<open>1.0\<close> at \<open>0\<close>, \<open>1.1\<close> from \<open>1\<close> to \<open>5\<close>, and \<open>1.2\<close>
  above \<open>5\<close> (and only there); in particular the values at \<open>0\<close>, \<open>3\<close>, \<open>5\<close> and \<open>6\<close>
  are \<open>1.0\<close>, \<open>1.1\<close>, \<open>1.1\<close> and \<open>1.2\<close>.
\<close>

theorem compute_coverage_factor_tiers:
  "0 \<le> c \<Longrightarrow>
     compute_coverage_factor (JInt c) =
       Inr (if c = 0 then 1.0 else if 1 \<le> c \<and> c \<le> 5 then 1.1 else 1.2)
     \<and> (compute_coverage_factor (JInt c) = Inr 1.2 \<longleftrightarrow> c > 5)
     \<and> compute_coverage_factor (JInt 0) = Inr 1.0
     \<and> compute_coverage_factor (JInt 3) = Inr 1.1
     \<and> compute_coverage_factor (JInt 5) = Inr 1.1
     \<and> compute_coverage_factor (JInt 6) = Inr 1.2"
  by (auto simp add: compute_coverage_factor_def numeric_value_def)

theorem compute_coverage_factor_tiers_witness:
  "(0::int) \<le> 4 \<and> compute_coverage_factor (JInt 4) = Inr 1.1"
  using compute_coverage_factor_tiers [of 4] by simp

section \<open>Properties of the classifier\<close>

lemma infer_category_items_find:
  "infer_category_items items h =
     (case find (\<lambda>kv. py_in (lower (fst kv)) (lower h)) items of
        None \<Rightarrow> ''Other''
      | Some kv \<Rightarrow> snd kv)"
  by (induction items h rule: infer_category_items.induct) simp_all

text \<open>
  C6. \<open>infer_category\<close> scans the keyword table in its insertion order (Non-Farm
  Employment, GDP, Interest Rate Decision, CPI, FOMC) and returns the category of the
  first keyword that occurs in the headline without regard to case, \<open>Other\<close> when none
  does. A headline with both \<open>CPI\<close> and \<open>GDP\<close> therefore never resolves to the
  category of \<open>CPI\<close>: it resolves to \<open>GDP\<close>, the earlier of the two, unless the only
  keyword before it in the table, \<open>Non-Farm Employment\<close>, occurs as well.
\<close>

theorem infer_category_first_match:
  "infer_category h = first_match_category h
   \<and> map fst EVENT_CATEGORIES =
       [''Non-Farm Employment'', ''GDP'', ''Interest Rate Decision'', ''CPI'', ''FOMC'']
   \<and> (py_in (lower ''CPI'') (lower h) \<and> py_in (lower ''GDP'') (lower h) \<longrightarrow>
        infer_category h =
          (if py_in (lower ''Non-Farm Employment'') (lower h) then ''NFP'' else ''GDP''))"
  by (simp add: infer_category_def first_match_category_def infer_category_items_find
        EVENT_CATEGORIES_def)

theorem infer_category_first_match_witness:
  "py_in (lower ''CPI'') (lower ''US CPI and GDP release'')
   \<and> py_in (lower ''GDP'') (lower ''US CPI and GDP release'')
   \<and> infer_category ''US CPI and GDP release'' = ''GDP''"
proof -
  have a: "py_in (lower ''CPI'') (lower ''US CPI and GDP release'')" by code_simp
  have b: "py_in (lower ''GDP'') (lower ''US CPI and GDP release'')" by code_simp
  have c: "\<not> py_in (lower ''Non-Farm Employment'') (lower ''US CPI and GDP release'')"
    by code_simp
  note imp =
    conjunct2 [OF conjunct2 [OF infer_category_first_match [of "''US CPI and GDP release''"]]]
  have "infer_category ''US CPI and GDP release'' =
      (if py_in (lower ''Non-Farm Employment'') (lower ''US CPI and GDP release'')
       then ''NFP'' else ''GDP'')"
    by (rule mp [OF imp conjI [OF a b]])
  with c have "infer_category ''US CPI and GDP release'' = ''GDP''"
    by (simp only: if_False)
  with a b show ?thesis by (intro conjI)
qed

section \<open>Rows through the stages\<close>

lemma apply_rows_Inr_iff:
  "apply_rows f xs = Inr ys \<longleftrightarrow> list_all2 (\<lambda>x y. f x = Inr y) xs ys"
proof (induction xs arbitrary: ys)
  case Nil
  then show ?case by auto
next
  case (Cons x xs)
  show ?case
  proof (cases "f x")
    case (Inl e)
    then show ?thesis by (auto simp add: list_all2_Cons1)
  next
    case (Inr y)
    note fx = this
    show ?thesis
    proof (cases "apply_rows f xs")
      case (Inl e)
      with fx Cons [of "tl ys"] show ?thesis
        by (auto simp add: list_all2_Cons1 Cons)
    next
      case (Inr zs)
      with fx Cons show ?thesis
        by (auto simp add: list_all2_Cons1)
    qed
  qed
qed

lemma apply_rows_Inl:
  "apply_rows f xs = Inl e \<Longrightarrow> \<exists>x \<in> set xs. f x = Inl e"
  by (induction xs) (auto split: sum.splits)

lemma apply_rows_total:
  "(\<And>x. x \<in> set xs \<Longrightarrow> \<exists>y. f x = Inr y) \<Longrightarrow> \<exists>ys. apply_rows f xs = Inr ys"
proof (induction xs)
  case Nil
  then show ?case by simp
next
  case (Cons x xs)
  then obtain y where "f x = Inr y" by auto
  moreover from Cons obtain ys where "apply_rows f xs = Inr ys" by auto
  ultimately show ?case by simp
qed

lemma dropna_subset: "(r, t) \<in> set (dropna xs) \<Longrightarrow> (r, Some t) \<in> set xs"
  by (induction xs rule: dropna.induct) auto

lemma dropna_fst: "x \<in> set (dropna (zip df ts)) \<Longrightarrow> fst x \<in> set df"
  by (metis dropna_subset prod.collapse set_zip_leftD)

lemma filter_rows_impact: "r \<in> set (filter_rows df) \<Longrightarrow> impact r \<in> set ALLOWED_IMPACT_COLORS"
  by (simp add: filter_rows_def)

lemma allowed_color_getitem:
  "c \<in> set ALLOWED_IMPACT_COLORS \<Longrightarrow> \<exists>v. getitem COLOR_SEVERITY_MAP c = Inr v"
  by (auto simp add: ALLOWED_IMPACT_COLORS_def COLOR_SEVERITY_MAP_def getitem_def)

lemma add_severity_total:
  assumes "\<And>x. x \<in> set df \<Longrightarrow> impact (fst x) \<in> set ALLOWED_IMPACT_COLORS"
  shows "\<exists>out. add_severity df = Inr out"
proof -
  have "\<exists>ys. apply_rows (\<lambda>x. severity_category_of (impact (fst x))) df = Inr ys"
  proof (rule apply_rows_total)
    fix x assume "x \<in> set df"
    from allowed_color_getitem [OF assms [OF this]]
    show "\<exists>y. severity_category_of (impact (fst x)) = Inr y"
      by (auto simp add: severity_category_of_def bind_def)
  qed
  moreover have "\<exists>ys. apply_rows (\<lambda>x. severity_level_of (impact (fst x))) df = Inr ys"
  proof (rule apply_rows_total)
    fix x assume "x \<in> set df"
    from allowed_color_getitem [OF assms [OF this]]
    show "\<exists>y. severity_level_of (impact (fst x)) = Inr y"
      by (auto simp add: severity_level_of_def bind_def)
  qed
  ultimately show ?thesis
    by (auto simp add: add_severity_def bind_def)
qed

lemma add_time_ms_impact:
  assumes "add_time_ms (filter_rows df0) = Inr df3" and "x \<in> set df3"
  shows "impact (fst x) \<in> set ALLOWED_IMPACT_COLORS"
proof -
  from assms(1) obtain ts where "df3 = dropna (zip (filter_rows df0) ts)"
    by (auto simp add: add_time_ms_def bind_def split: sum.splits)
  with assms(2) have "fst x \<in> set (filter_rows df0)" by (simp add: dropna_fst)
  then show ?thesis by (rule filter_rows_impact)
qed

lemma convert_all_day: "convert_to_utc_ms ''Wed Oct 2'' ''All Day'' = Inl ValueError"
  by code_simp

lemma filter_all_day: "filter_rows [all_day_row] = [all_day_row]"
  by (simp add: filter_rows_def all_day_row_def ALLOWED_CURRENCY_CODES_def ALLOWED_IMPACT_COLORS_def)

lemma all_day_fields: "date all_day_row = ''Wed Oct 2''" "time all_day_row = ''All Day''"
  by (simp_all add: all_day_row_def)

lemma convert_None_iff: "convert_to_utc_ms d t = Inr None \<longleftrightarrow> length (split d) < 3"
  by (auto simp add: convert_to_utc_ms_def Let_def split: sum.splits)

lemma strptime_error: "strptime s = Inl e \<Longrightarrow> e = ValueError"
  by (auto simp add: strptime_def split: option.splits if_splits)



section \<open>The sample frame, stage by stage\<close>

lemma sample_stage1: "add_time_ms (filter_rows sample_frame) = Inr [(fomc_row, 1727857800000), (cpi_row, 1730383200000)]"
  by code_simp

lemma sample_stage2: "add_severity [(fomc_row, 1727857800000), (cpi_row, 1730383200000)] =
   Inr [((fomc_row, 1727857800000), ''High'', 3), ((cpi_row, 1730383200000), ''Medium'', 2)]"
  by code_simp


lemma sample_stage3: "add_factors (map (make_row sample_sia sample_now)
     [((fomc_row, 1727857800000), ''High'', 3), ((cpi_row, 1730383200000), ''Medium'', 2)]) =
   Inr [fomc_factors, cpi_factors]"
  by code_simp

lemma sample_stage4: "add_severities service_three [fomc_factors, cpi_factors] =
   Inr (sample_scored, [coverage_request ''MonetaryPolicy'' 1727857800000])"
  by (simp add: add_severities_def bind_def severity_step_def fetch_news_coverage_def
        MIN_DATETIME_MS_def END_DATETIME_MS_def ONE_DAY_MS_def
        service_three_def response_count_def raise_for_status_def compute_coverage_factor_def
        numeric_value_def log1p_def fomc_factors_def cpi_factors_def sample_scored_def
        make_scored_row_def)

lemma sample_enriched:
  "enrich_frame sample_sia sample_now service_three sample_frame =
     Inr (sample_scored, [coverage_request ''MonetaryPolicy'' 1727857800000])"
  by (simp only: enrich_frame_def bind_def sample_stage1 sample_stage2 sample_stage3 sample_stage4 sum.case)



section \<open>Properties of the severity lookup\<close>

text \<open>
  C10. Every colour of \<open>ALLOWED_IMPACT_COLORS\<close> is a key of \<open>COLOR_SEVERITY_MAP\<close>, so
  on the rows that pass the filters and keep a time the two severity lookups return:
  the \<^verbatim>\<open>KeyError\<close> of an unknown colour cannot occur there. The map is not injective:
  \<open>yellow\<close> and \<open>gray\<close> both give \<open>(Low, 1)\<close>.
\<close>

theorem allowed_colors_have_severity:
  "(\<forall>c \<in> set ALLOWED_IMPACT_COLORS. \<exists>v. getitem COLOR_SEVERITY_MAP c = Inr v)
   \<and> (\<forall>df3. add_time_ms (filter_rows df0) = Inr df3 \<longrightarrow> (\<exists>df4. add_severity df3 = Inr df4))
   \<and> getitem COLOR_SEVERITY_MAP ''yellow'' = Inr (''Low'', 1)
   \<and> getitem COLOR_SEVERITY_MAP ''gray'' = Inr (''Low'', 1)"
proof (intro conjI allI impI ballI)
  fix c assume "c \<in> set ALLOWED_IMPACT_COLORS"
  then show "\<exists>v. getitem COLOR_SEVERITY_MAP c = Inr v" by (rule allowed_color_getitem)
next
  fix df3 assume "add_time_ms (filter_rows df0) = Inr df3"
  then show "\<exists>df4. add_severity df3 = Inr df4"
    by (intro add_severity_total) (rule add_time_ms_impact)
next
  show "getitem COLOR_SEVERITY_MAP ''yellow'' = Inr (''Low'', 1)"
    by (simp add: COLOR_SEVERITY_MAP_def getitem_def)
next
  show "getitem COLOR_SEVERITY_MAP ''gray'' = Inr (''Low'', 1)"
    by (simp add: COLOR_SEVERITY_MAP_def getitem_def)
qed


theorem allowed_colors_have_severity_witness:
  "''red'' \<in> set ALLOWED_IMPACT_COLORS
   \<and> getitem COLOR_SEVERITY_MAP ''red'' = Inr (''High'', 3)
   \<and> add_time_ms (filter_rows sample_frame) =
       Inr [(fomc_row, 1727857800000), (cpi_row, 1730383200000)]
   \<and> (\<exists>df4. add_severity [(fomc_row, 1727857800000), (cpi_row, 1730383200000)] = Inr df4)"
proof -
  note inst = allowed_colors_have_severity [of sample_frame]
  have red: "''red'' \<in> set ALLOWED_IMPACT_COLORS"
    by (simp add: ALLOWED_IMPACT_COLORS_def)
  have val: "getitem COLOR_SEVERITY_MAP ''red'' = Inr (''High'', 3)"
    using bspec [OF conjunct1 [OF inst] red]
    by (simp add: COLOR_SEVERITY_MAP_def getitem_def)
  have "\<exists>df4. add_severity [(fomc_row, 1727857800000), (cpi_row, 1730383200000)] = Inr df4"
    by (rule mp [OF spec [OF conjunct1 [OF conjunct2 [OF inst]]] sample_stage1])
  with red val sample_stage1 show ?thesis by (intro conjI)
qed

section \<open>Properties of the domain factor\<close>

text \<open>
  What \<open>domain_factor\<close> computes on a row of a frame that has a column \<^verbatim>\<open>headline\<close>, and
  what it does on a row of a frame that has none.
\<close>

lemma domain_factor_with_headline:
  "headline (raw r) = Some h \<Longrightarrow>
     domain_factor df r =
       Inr ((if category r = ''RateDecision'' \<or> category r = ''MonetaryPolicy'' then 1.2 else 1)
            * (if category r = ''Inflation'' then 1.15 else 1)
            * (if category r = ''NFP'' then 1.2 else 1)
            * (if contains_keyword h GEOPOLITICAL_KEYWORDS then 1.25 else 1)
            * (if contains_keyword h COMMODITY_KEYWORDS then 1.1 else 1)
            * (if h \<noteq> [] \<and> ''USD'' \<in> currency ` raw ` set df then 1.1 else 1))"
  by (simp add: domain_factor_def times_if_def unique_def image_image)

lemma domain_factor_without_headline:
  "headline (raw r) = None \<Longrightarrow> domain_factor df r = Inl (KeyError ''headline'')"
  by (simp add: domain_factor_def)

lemma add_factors_without_headline:
  "df \<noteq> [] \<Longrightarrow> headline (raw (hd df)) = None \<Longrightarrow>
     add_factors df = Inl (KeyError ''headline'')"
  by (cases df) (simp_all add: add_factors_def bind_def domain_factor_without_headline)

section \<open>The domain factor on the driver's frame\<close>

lemma war_stage1: "add_time_ms (filter_rows [war_row]) = Inr [(war_row, 1727857800000)]"
  by code_simp

lemma war_stage2: "add_severity [(war_row, 1727857800000)] =
    Inr [((war_row, 1727857800000), ''High'', 3)]"
  by code_simp

lemma batch_stage1: "add_time_ms (filter_rows [war_row, euro_row]) =
    Inr [(war_row, 1727857800000), (euro_row, 1727946000000)]"
  by code_simp

lemma batch_stage2: "add_severity [(war_row, 1727857800000), (euro_row, 1727946000000)] =
    Inr [((war_row, 1727857800000), ''High'', 3), ((euro_row, 1727946000000), ''Medium'', 2)]"
  by code_simp

lemma war_row_headline: "headline war_row = None" "event war_row = ''Sanctions and war fears hit markets''"
  by (simp_all add: war_row_def)


text \<open>
  C3. The claim is that the domain factor of every row is multiplied by \<open>1.25\<close> when
  the headline holds a geopolitical keyword, and by \<open>1.1\<close> when it holds a commodity
  keyword. On a frame as the driver passes it, \<^verbatim>\<open>domain_factor\<close> indexes the row with
  \<^verbatim>\<open>'headline'\<close> while the text is still in the column \<^verbatim>\<open>event\<close> (the renaming is the
  last statement of \<^verbatim>\<open>enrich_data\<close>): for the row below, whose text holds \<open>war\<close> and
  \<open>sanctions\<close>, no factor is computed and \<^verbatim>\<open>enrich_data\<close> ends with \<^verbatim>\<open>KeyError\<close>.
\<close>

theorem geopolitical_row_keyerror:
  "contains_keyword (event war_row) GEOPOLITICAL_KEYWORDS
   \<and> enrich_data sia now_ms service [war_row] = Inl (KeyError ''headline'')"
proof
  show "contains_keyword (event war_row) GEOPOLITICAL_KEYWORDS"
    unfolding war_row_headline by code_simp
  have "add_factors (map (make_row sia now_ms) [((war_row, 1727857800000), ''High'', 3)]) =
      Inl (KeyError ''headline'')"
    by (rule add_factors_without_headline) (simp_all add: make_row_def war_row_headline)
  then show "enrich_data sia now_ms service [war_row] = Inl (KeyError ''headline'')"
    by (simp only: enrich_data_def enrich_frame_def bind_def war_stage1 war_stage2 sum.case)
qed


text \<open>
  C4. The claim is that the domain factor is multiplied by \<open>1.1\<close> exactly when the
  headline is not empty and \<open>USD\<close> is among the currencies of the whole batch. On the
  driver's frame the same lookup of \<^verbatim>\<open>'headline'\<close> fails: for a batch of a USD row and a
  EUR row no factor is computed for either and \<^verbatim>\<open>enrich_data\<close> ends with \<^verbatim>\<open>KeyError\<close>.
\<close>

theorem usd_batch_keyerror:
  "''USD'' \<in> set (map currency [war_row, euro_row])
   \<and> currency euro_row = ''EUR''
   \<and> enrich_data sia now_ms service [war_row, euro_row] = Inl (KeyError ''headline'')"
proof (intro conjI)
  show "''USD'' \<in> set (map currency [war_row, euro_row])" by (simp add: war_row_def)
  show "currency euro_row = ''EUR''" by (simp add: euro_row_def)
  have "add_factors (map (make_row sia now_ms)
          [((war_row, 1727857800000), ''High'', 3), ((euro_row, 1727946000000), ''Medium'', 2)]) =
      Inl (KeyError ''headline'')"
    by (rule add_factors_without_headline) (simp_all add: make_row_def war_row_headline)
  then show "enrich_data sia now_ms service [war_row, euro_row] = Inl (KeyError ''headline'')"
    by (simp only: enrich_data_def enrich_frame_def bind_def batch_stage1 batch_stage2 sum.case)
qed


section \<open>Properties of the time normalizer\<close>

text \<open>
  \<open>convert_to_utc_ms\<close> returns \<^verbatim>\<open>None\<close> exactly on a date label of fewer than three
  pieces, and \<open>add_time_ms\<close>, when it returns, has dropped exactly those rows.
\<close>

lemma add_time_ms_keeps:
  assumes "add_time_ms df = Inr out"
  shows "map fst out = filter (\<lambda>r. length (split (date r)) \<ge> 3) df"
proof -
  from assms obtain ts where
    ts: "apply_rows (\<lambda>r. convert_to_utc_ms (date r) (time r)) df = Inr ts" and
    out: "out = dropna (zip df ts)"
    by (auto simp add: add_time_ms_def bind_def split: sum.splits)
  from ts have "list_all2 (\<lambda>r y. convert_to_utc_ms (date r) (time r) = Inr y) df ts"
    by (simp add: apply_rows_Inr_iff)
  then have "map fst (dropna (zip df ts)) = filter (\<lambda>r. length (split (date r)) \<ge> 3) df"
  proof (induction df ts rule: list_all2_induct)
    case Nil
    then show ?case by simp
  next
    case (Cons r df y ts)
    show ?case
    proof (cases y)
      case None
      with Cons have "length (split (date r)) < 3" by (simp add: convert_None_iff)
      with None Cons show ?thesis by simp
    next
      case (Some t)
      with Cons have "\<not> length (split (date r)) < 3"
        using convert_None_iff [of "date r" "time r"] by simp
      with Some Cons show ?thesis by simp
    qed
  qed
  then show ?thesis by (simp add: out)
qed


text \<open>
  C5. The claim is that \<open>convert_to_utc_ms\<close> returns a null marker, rather than raise,
  also when the combined text does not match the pattern, and that such a row is then
  dropped. For the row below the date label has three pieces and the time cell is
  \<open>All Day\<close>: \<^verbatim>\<open>strptime\<close> raises \<^verbatim>\<open>ValueError\<close>, nothing catches it, and
  \<^verbatim>\<open>enrich_data\<close> ends with that exception instead of dropping the row.
\<close>

theorem convert_to_utc_ms_mismatch_raises:
  "length (split (date all_day_row)) \<ge> 3
   \<and> convert_to_utc_ms (date all_day_row) (time all_day_row) = Inl ValueError
   \<and> enrich_data sia now_ms service [all_day_row] = Inl ValueError"
proof (intro conjI)
  show "length (split (date all_day_row)) \<ge> 3"
    unfolding all_day_fields by code_simp
  show "convert_to_utc_ms (date all_day_row) (time all_day_row) = Inl ValueError"
    unfolding all_day_fields by (rule convert_all_day)
  show "enrich_data sia now_ms service [all_day_row] = Inl ValueError"
    using convert_all_day
    by (simp add: enrich_data_def enrich_frame_def filter_all_day add_time_ms_def bind_def
          all_day_fields)
qed

section \<open>The severity composer on the driver's frame\<close>

text \<open>
  On a frame without a column \<^verbatim>\<open>headline\<close> the loop over the rows is reached only with
  no row left: whenever \<open>enrich_frame\<close> returns on such a frame, it returns no row and
  has sent no request.
\<close>

lemma enrich_frame_stages:
  assumes "enrich_frame sia now_ms service df0 = Inr (rows, sent)"
  obtains df3 df3' df5 where
    "add_time_ms (filter_rows df0) = Inr df3"
    "add_severity df3 = Inr df3'"
    "add_factors (map (make_row sia now_ms) df3') = Inr df5"
    "add_severities service df5 = Inr (rows, sent)"
  using assms by (auto simp add: enrich_frame_def bind_def split: sum.splits)

lemma add_time_ms_rows:
  assumes "add_time_ms df = Inr out" and "x \<in> set out"
  shows "fst x \<in> set df"
proof -
  from assms(1) obtain ts where "out = dropna (zip df ts)"
    by (auto simp add: add_time_ms_def bind_def split: sum.splits)
  with assms(2) show ?thesis by (simp add: dropna_fst)
qed

lemma add_severity_rows:
  assumes "add_severity df = Inr out" and "y \<in> set out"
  shows "fst y \<in> set df"
proof -
  from assms(1) obtain cats lvls where "out = zip df (zip cats lvls)"
    by (auto simp add: add_severity_def bind_def split: sum.splits)
  with assms(2) show ?thesis by (metis prod.collapse set_zip_leftD)
qed

lemma driver_frame_no_rows:
  assumes none: "\<forall>r \<in> set df0. headline r = None"
    and ret: "enrich_frame sia now_ms service df0 = Inr (rows, sent)"
  shows "rows = [] \<and> sent = []"
proof -
  from ret obtain df3 df3' df5 where
    st: "add_time_ms (filter_rows df0) = Inr df3"
        "add_severity df3 = Inr df3'"
        "add_factors (map (make_row sia now_ms) df3') = Inr df5"
        "add_severities service df5 = Inr (rows, sent)"
    by (rule enrich_frame_stages)
  have empty: "df3' = []"
  proof (rule ccontr)
    assume ne: "df3' \<noteq> []"
    then have "hd df3' \<in> set df3'" by simp
    then have "fst (hd df3') \<in> set df3" using st(2) by (intro add_severity_rows)
    then have "fst (fst (hd df3')) \<in> set (filter_rows df0)"
      using st(1) by (intro add_time_ms_rows)
    then have "fst (fst (hd df3')) \<in> set df0" by (simp add: filter_rows_def)
    with none have h: "headline (fst (fst (hd df3'))) = None" by simp
    have "raw (make_row sia now_ms (hd df3')) = fst (fst (hd df3'))"
      by (cases "hd df3'") (auto simp add: make_row_def)
    with ne h have "headline (raw (hd (map (make_row sia now_ms) df3'))) = None"
      by (simp add: hd_map)
    moreover have "map (make_row sia now_ms) df3' \<noteq> []" using ne by simp
    ultimately have "add_factors (map (make_row sia now_ms) df3') = Inl (KeyError ''headline'')"
      by (intro add_factors_without_headline)
    with st(3) show False by simp
  qed
  with st(3) have "df5 = []" by (simp add: add_factors_def bind_def)
  with st(4) show ?thesis by (simp add: add_severities_def bind_def)
qed


text \<open>
  C1. The claim is that for every row whose \<open>future_event\<close> is true \<^verbatim>\<open>enrich_data\<close>
  sets \<open>final_severity\<close> to none and \<open>anticipated_severity\<close> to the product of
  severity level, volatility factor, sentiment factor and domain factor. On the driver's
  frame the run does not get that far: the row below is on 2 October 2024, the clock reads
  a day in November 2023, the column \<open>future_event\<close> is set to true for the row, and
  the next statement, the computation of the domain factor, ends \<^verbatim>\<open>enrich_data\<close> with
  \<^verbatim>\<open>KeyError\<close>; neither severity is set.
\<close>

theorem future_row_keyerror:
  "add_time_ms (filter_rows [war_row]) = Inr [(war_row, 1727857800000)]
   \<and> future_event (make_row sia 1700000000000 ((war_row, 1727857800000), ''High'', 3))
   \<and> enrich_data sia 1700000000000 service [war_row] = Inl (KeyError ''headline'')"
proof (intro conjI)
  show "add_time_ms (filter_rows [war_row]) = Inr [(war_row, 1727857800000)]"
    by (rule war_stage1)
  show "future_event (make_row sia 1700000000000 ((war_row, 1727857800000), ''High'', 3))"
    by (simp add: make_row_def)
  have "add_factors (map (make_row sia 1700000000000) [((war_row, 1727857800000), ''High'', 3)]) =
      Inl (KeyError ''headline'')"
    by (rule add_factors_without_headline) (simp_all add: make_row_def war_row_headline)
  then show "enrich_data sia 1700000000000 service [war_row] = Inl (KeyError ''headline'')"
    by (simp only: enrich_data_def enrich_frame_def bind_def war_stage1 war_stage2 sum.case)
qed


text \<open>
  C2. The claim is that for every row whose \<open>future_event\<close> is false \<^verbatim>\<open>enrich_data\<close>
  asks the coverage adapter once, with the row's category and time, and sets
  \<open>final_severity\<close> and \<open>anticipated_severity\<close> from the answer. On the driver's frame
  the run does not get that far: for the same row with the clock on 15 October 2024 the
  column \<open>future_event\<close> is false, and \<^verbatim>\<open>enrich_data\<close> ends with \<^verbatim>\<open>KeyError\<close> before
  the loop; no request is sent and neither severity is set.
\<close>

theorem past_row_keyerror:
  "add_time_ms (filter_rows [war_row]) = Inr [(war_row, 1727857800000)]
   \<and> \<not> future_event (make_row sia 1729000000000 ((war_row, 1727857800000), ''High'', 3))
   \<and> enrich_frame sia 1729000000000 service [war_row] = Inl (KeyError ''headline'')
   \<and> enrich_data sia 1729000000000 service [war_row] = Inl (KeyError ''headline'')"
proof (intro conjI)
  show "add_time_ms (filter_rows [war_row]) = Inr [(war_row, 1727857800000)]"
    by (rule war_stage1)
  show "\<not> future_event (make_row sia 1729000000000 ((war_row, 1727857800000), ''High'', 3))"
    by (simp add: make_row_def)
  have f: "add_factors (map (make_row sia 1729000000000) [((war_row, 1727857800000), ''High'', 3)]) =
      Inl (KeyError ''headline'')"
    by (rule add_factors_without_headline) (simp_all add: make_row_def war_row_headline)
  then show "enrich_frame sia 1729000000000 service [war_row] = Inl (KeyError ''headline'')"
    by (simp only: enrich_frame_def bind_def war_stage1 war_stage2 sum.case)
  from f show "enrich_data sia 1729000000000 service [war_row] = Inl (KeyError ''headline'')"
    by (simp only: enrich_data_def enrich_frame_def bind_def war_stage1 war_stage2 sum.case)
qed


section \<open>Properties of the coverage adapter\<close>

text \<open>
  For an event time in the range of \<^verbatim>\<open>datetime\<close>, a day from either end,
  \<open>fetch_news_coverage\<close> sends one request and returns what \<open>response_count\<close> makes of
  the outcome: \<open>0\<close> when the request raises, when the status is from 400 to 599, when the
  body is not JSON, when the document is not an object, and when the object has no key
  \<^verbatim>\<open>totalResults\<close>; the stored value otherwise. Outside of that range it raises.
\<close>

lemma fetch_news_coverage_in_range:
  "MIN_DATETIME_MS + ONE_DAY_MS \<le> t \<Longrightarrow> t + ONE_DAY_MS < END_DATETIME_MS \<Longrightarrow>
     fetch_news_coverage service keyword t sent =
       Inr (response_count (service sent (coverage_request keyword t)),
            sent @ [coverage_request keyword t])"
  by (simp add: fetch_news_coverage_def MIN_DATETIME_MS_def END_DATETIME_MS_def ONE_DAY_MS_def
        Let_def)

lemma response_count_raised: "response_count Raised = JInt 0"
  by (simp add: response_count_def)

lemma response_count_error_status:
  "400 \<le> code \<Longrightarrow> code < 600 \<Longrightarrow> response_count (Returned code body) = JInt 0"
  by (simp add: response_count_def raise_for_status_def)

lemma response_count_not_json: "response_count (Returned code None) = JInt 0"
  by (simp add: response_count_def)

lemma response_count_not_object:
  "(\<And>items. doc \<noteq> JObj items) \<Longrightarrow> response_count (Returned code (Some doc)) = JInt 0"
  by (cases doc) (auto simp add: response_count_def)

lemma response_count_absent:
  "map_of items ''totalResults'' = None \<Longrightarrow>
     response_count (Returned code (Some (JObj items))) = JInt 0"
  by (simp add: response_count_def)

lemma response_count_present:
  "\<not> (400 \<le> code \<and> code < 600) \<Longrightarrow> map_of items ''totalResults'' = Some v \<Longrightarrow>
     response_count (Returned code (Some (JObj items))) = v"
  by (auto simp add: response_count_def raise_for_status_def)

lemma fetch_news_coverage_out_of_range:
  "fetch_news_coverage service keyword 253402300800000 sent = Inl ValueError"
  by (simp add: fetch_news_coverage_def MIN_DATETIME_MS_def END_DATETIME_MS_def)

lemma null_stage4:
  "add_severities service_null_total [fomc_factors, cpi_factors] = Inl TypeError"
  by (simp add: add_severities_def bind_def severity_step_def fetch_news_coverage_def
        MIN_DATETIME_MS_def END_DATETIME_MS_def ONE_DAY_MS_def
        service_null_total_def response_count_def raise_for_status_def compute_coverage_factor_def
        numeric_value_def fomc_factors_def)


text \<open>
  C7. The claim is that \<open>fetch_news_coverage\<close> returns \<open>0\<close> whenever the lookup fails,
  a malformed \<^verbatim>\<open>totalResults\<close> included, so that the run never ends because of the
  service. For a response with status 200 and the document \<^verbatim>\<open>{"totalResults": null}\<close>
  the function returns that null instead of \<open>0\<close>, \<open>compute_coverage_factor\<close> raises
  \<^verbatim>\<open>TypeError\<close> on it, and \<^verbatim>\<open>enrich_data\<close> ends with that exception at the first past
  row.
\<close>

theorem fetch_news_coverage_null_total:
  "fetch_news_coverage service_null_total ''MonetaryPolicy'' 1727857800000 [] =
     Inr (JNull, [coverage_request ''MonetaryPolicy'' 1727857800000])
   \<and> JNull \<noteq> JInt 0
   \<and> compute_coverage_factor JNull = Inl TypeError
   \<and> enrich_data sample_sia sample_now service_null_total sample_frame = Inl TypeError"
proof (intro conjI)
  show "fetch_news_coverage service_null_total ''MonetaryPolicy'' 1727857800000 [] =
     Inr (JNull, [coverage_request ''MonetaryPolicy'' 1727857800000])"
    by (simp add: fetch_news_coverage_def MIN_DATETIME_MS_def END_DATETIME_MS_def ONE_DAY_MS_def
          service_null_total_def response_count_def raise_for_status_def)
  show "JNull \<noteq> JInt 0" by simp
  show "compute_coverage_factor JNull = Inl TypeError"
    by (simp add: compute_coverage_factor_def numeric_value_def)
  show "enrich_data sample_sia sample_now service_null_total sample_frame = Inl TypeError"
    by (simp only: enrich_data_def enrich_frame_def bind_def sample_stage1 sample_stage2
          sample_stage3 null_stage4 sum.case)
qed

end
